theory Spec2Isabelle
  imports Complex_Main
begin

section \<open>The transit-fit step of OpenTS (src/tfstep.py)\<close>

text \<open>
  The step masks a light curve around the expected transits, hands the masked data to
  an external fitting library, and reduces the fitted model to per-orbit differences of
  log likelihood and a delta-BIC score. Only the arithmetic done by \<^verbatim>\<open>tfstep.py\<close>
  is embedded here; what the external library returns (the model flux, the white noise
  level, the posterior medians) enters the functions below as an argument.

  Conventions of the embedding:
  \<^item> a numpy \<^verbatim>\<open>float64\<close> is a \<^typ>\<open>real\<close>: rounding, overflow and NaN are outside the
    model, so every statement below is about the exact value of the expression the code
    evaluates. Only identities between formulas and comparisons that rounding preserves
    are stated; whether a difference of two nearly equal log likelihoods is strictly
    positive depends on rounding (the quadratic term can be absorbed by the constant
    terms of \<^verbatim>\<open>lnlike_normal\<close>) and is not stated here;
  \<^item> a numpy integer array is an \<^typ>\<open>int list\<close>, a boolean array a \<^typ>\<open>bool list\<close>;
  \<^item> an exception is a value \<open>Inl e\<close> of \<open>error + 'a\<close>.
\<close>

datatype error = AssertionError | NotImplementedError | ValueError | IndexError

subsection \<open>numpy helpers used by the step\<close>

text \<open>\<^verbatim>\<open>xs[m]\<close> for a boolean array \<^verbatim>\<open>m\<close> of the size of \<^verbatim>\<open>xs\<close>: the entries of
  \<^verbatim>\<open>xs\<close> where \<^verbatim>\<open>m\<close> is true, in order. The step only ever indexes an array with a
  mask computed from an array of the same size.\<close>

definition bool_index :: "'a list \<Rightarrow> bool list \<Rightarrow> 'a list" where
  "bool_index xs m = map fst (filter snd (zip xs m))"

text \<open>\<^verbatim>\<open>unique(xs)\<close>: the distinct entries in increasing order.\<close>

definition unique :: "int list \<Rightarrow> int list" where
  "unique xs = sort (remdups xs)"

text \<open>The second operand of an elementwise operation is an array or a scalar, which
  numpy broadcasts to the size of the first.\<close>

datatype operand = Arr "real list" | Scalar real

fun broadcast :: "nat \<Rightarrow> operand \<Rightarrow> real list" where
  "broadcast n (Arr ms) = ms"
| "broadcast n (Scalar c) = replicate n c"

text \<open>\<^verbatim>\<open>xs.mean()\<close> and \<^verbatim>\<open>xs.max()\<close>; the latter raises \<^verbatim>\<open>ValueError\<close> on an empty
  array.\<close>

definition mean :: "real list \<Rightarrow> real" where
  "mean xs = sum_list xs / real (length xs)"

definition array_max :: "real list \<Rightarrow> error + real" where
  "array_max xs = (if xs = [] then Inl ValueError else Inr (Max (set xs)))"

subsection \<open>\<^verbatim>\<open>delta_bic\<close> (lines 54-55)\<close>

definition delta_bic :: "real \<Rightarrow> real \<Rightarrow> real \<Rightarrow> real \<Rightarrow> real" where
  "delta_bic dll d1 d2 n = dll + 0.5 * (d1 - d2) * ln n"

subsection \<open>Per-orbit log likelihood differences (lines 210-232)\<close>

text \<open>The local function \<^verbatim>\<open>lnlike_normal(o, m, e)\<close>. Its \<^verbatim>\<open>sum\<close> is Python's builtin,
  adding the entries of the array one after the other.\<close>

definition lnlike_normal :: "real list \<Rightarrow> operand \<Rightarrow> real \<Rightarrow> real" where
  "lnlike_normal obs m e =
     (let npt = real (length obs) in
      - npt * ln e - 0.5 * npt * ln (2 * pi)
        - 0.5 * sum_list (map2 (\<lambda>x y. (x - y)\<^sup>2 / e\<^sup>2) obs (broadcast (length obs) m)))"

text \<open>The loop \<^verbatim>\<open>for i, e in enumerate(ues)\<close>, which fills \<^verbatim>\<open>lnl[i]\<close>.\<close>

fun dll_loop ::
  "(nat \<times> int) list \<Rightarrow> int list \<Rightarrow> real list \<Rightarrow> real list \<Rightarrow> real \<Rightarrow> real list \<Rightarrow> real list"
where
  "dll_loop [] epochs fobs fmod err lnl = lnl"
| "dll_loop ((i, e) # rest) epochs fobs fmod err lnl =
     (let m = map (\<lambda>x. x = e) epochs in
      dll_loop rest epochs fobs fmod err
        (lnl[i := lnlike_normal (bool_index fobs m) (Arr (bool_index fmod m)) err
                  - lnlike_normal (bool_index fobs m) (Scalar 1.0) err]))"

text \<open>Line 232, the call made in mode \<^verbatim>\<open>all\<close>:
  \<^verbatim>\<open>delta_bic(lnl.sum(), 0, 9, self.time.size)\<close>.\<close>

definition aggregate_dbic :: "real list \<Rightarrow> real list \<Rightarrow> real" where
  "aggregate_dbic lnl time = delta_bic (sum_list lnl) 0 9 (real (length time))"

record scores =
  dll_epochs :: "int list"
  dll_values :: "real list"
  dbic :: "real option"

text \<open>What \<^verbatim>\<open>__call__\<close> stores after the fit: \<^verbatim>\<open>epochs\<close>, \<^verbatim>\<open>time\<close> and \<^verbatim>\<open>fobs\<close> are
  the masked arrays, \<^verbatim>\<open>fmod\<close> is the flux model at the posterior median and \<^verbatim>\<open>err\<close> is
  \<^verbatim>\<open>10 ** pv[7]\<close>. The score \<^verbatim>\<open>dbic\<close> is set in mode \<^verbatim>\<open>all\<close> only.\<close>

definition fit_scores ::
  "string \<Rightarrow> int list \<Rightarrow> real list \<Rightarrow> real list \<Rightarrow> real list \<Rightarrow> real \<Rightarrow> scores"
where
  "fit_scores mode epochs time fobs fmod err =
     (let ues = unique epochs;
          lnl = dll_loop (enumerate 0 ues) epochs fobs fmod err (replicate (length ues) 0)
      in \<lparr> dll_epochs = ues, dll_values = lnl,
           dbic = (if mode = ''all'' then Some (aggregate_dbic lnl time) else None) \<rparr>)"

subsection \<open>The selection mask (lines 152-165)\<close>

text \<open>The part of the transit search object \<^verbatim>\<open>self.ts\<close> that the step reads. The three
  arrays have one entry per observation.\<close>

record transit_search =
  ts_time :: "real list"
  ts_flux :: "real list"
  ts_phase :: "real list"
  ts_zero_epoch :: real
  ts_period :: real
  ts_duration :: real
  ts_depth :: real

text \<open>\<^verbatim>\<open>epoch\<close> is imported from the external package pytransit and maps every time to
  an integer orbit number; it is the parameter \<open>epoch_of\<close>, applied entry by entry.
  \<^verbatim>\<open>%\<close> on integers has the sign of the divisor, as \<open>mod\<close> on \<^typ>\<open>int\<close> has.\<close>

definition transit_mask ::
  "(real \<Rightarrow> real \<Rightarrow> real \<Rightarrow> int) \<Rightarrow> transit_search \<Rightarrow> string \<Rightarrow> error + bool list"
where
  "transit_mask epoch_of ts mode =
     (let epochs = map (\<lambda>t. epoch_of t (ts_zero_epoch ts) (ts_period ts)) (ts_time ts);
          near = map (\<lambda>ph. \<bar>ph - 0.5 * ts_period ts\<bar> < 4 * 0.5 * ts_duration ts) (ts_phase ts)
      in if mode = ''all'' then
           Inr (map2 (\<and>) (replicate (length (ts_time ts)) True) near)
         else if mode = ''even'' then
           Inr (map2 (\<and>) (map (\<lambda>e. e mod 2 = 0) epochs) near)
         else if mode = ''odd'' then
           Inr (map2 (\<and>) (map (\<lambda>e. e mod 2 = 1) epochs) near)
         else Inl NotImplementedError)"

text \<open>The indices a mask retains.\<close>

definition retained :: "bool list \<Rightarrow> nat set" where
  "retained m = {i. i < length m \<and> m ! i}"

subsection \<open>The prior on the squared radius ratio (lines 179 and 184)\<close>

text \<open>\<^verbatim>\<open>lpf.set_prior('k2', 'UP', lower, upper)\<close>: the pair of bounds passed. In mode
  \<^verbatim>\<open>all\<close> they come from the depth of the search, otherwise from the median \<^verbatim>\<open>k2.med\<close>
  of the fit to all transits.\<close>

definition k2_prior :: "string \<Rightarrow> real \<Rightarrow> real \<Rightarrow> real \<times> real" where
  "k2_prior mode depth k2_med =
     (if mode = ''all'' then (0.5 * depth, 2 * depth)
      else (max (0.01\<^sup>2) (0.5 * k2_med), max (0.08\<^sup>2) (min (0.6\<^sup>2) (2 * k2_med))))"

subsection \<open>Construction (lines 120-146)\<close>

typedecl search_lpf
typedecl data_frame

text \<open>The attributes of a \<^verbatim>\<open>TransitFitStep\<close>. \<open>self_base\<close> is what the base class
  \<^verbatim>\<open>OTSStep\<close> keeps; an attribute that may be \<^verbatim>\<open>None\<close> is an option.\<close>

record 'b tfstep =
  self_base :: 'b
  self_mode :: string
  self_title :: string
  self_nsamples :: int
  self_exptime :: real
  self_use_opencl :: bool
  self_use_tqdm :: bool
  self_lpf :: "search_lpf option"
  self_result :: "search_lpf option"
  self_mask :: "bool list option"
  self_time :: "real list option"
  self_phase :: "real list option"
  self_fobs :: "real list option"
  self_fmod :: "real list option"
  self_ftra :: "real list option"
  self_dll_epochs :: "int list option"
  self_dll_values :: "real list option"
  self_parameters :: "data_frame option"
  self_period :: "real option"
  self_zero_epoch :: "real option"
  self_duration :: "real option"
  self_depth :: "real option"

text \<open>\<^verbatim>\<open>__init__\<close>. The base class \<^verbatim>\<open>OTSStep\<close> lives in \<^verbatim>\<open>otsstep.py\<close>, which is not
  part of the sources at hand: its initialiser is the parameter \<open>super_init\<close>, which
  may itself raise.\<close>

definition tfstep_init ::
  "('ts \<Rightarrow> error + 'b) \<Rightarrow> 'ts \<Rightarrow> string \<Rightarrow> string \<Rightarrow> int \<Rightarrow> real \<Rightarrow> bool \<Rightarrow> bool
     \<Rightarrow> error + 'b tfstep"
where
  "tfstep_init super_init ts mode title nsamples exptime use_opencl use_tqdm =
     (if mode \<notin> {''all'', ''even'', ''odd''} then Inl AssertionError
      else case super_init ts of
        Inl e \<Rightarrow> Inl e
      | Inr b \<Rightarrow> Inr \<lparr> self_base = b, self_mode = mode, self_title = title,
            self_nsamples = nsamples, self_exptime = exptime,
            self_use_opencl = use_opencl, self_use_tqdm = use_tqdm,
            self_lpf = None, self_result = None,
            self_mask = None, self_time = None, self_phase = None,
            self_fobs = None, self_fmod = None, self_ftra = None,
            self_dll_epochs = None, self_dll_values = None, self_parameters = None,
            self_period = None, self_zero_epoch = None,
            self_duration = None, self_depth = None \<rparr>)"

subsection \<open>The summaries written to the header (lines 275-288 of \<^verbatim>\<open>add_to_fits\<close>)\<close>

text \<open>The expression \<^verbatim>\<open>lm = ll.max(); log(exp(ll - lm).mean()) + lm\<close>, which the method
  evaluates for all orbits and for each of the two parity subsets.\<close>

definition log_mean_exp :: "real list \<Rightarrow> error + real" where
  "log_mean_exp ll =
     (case array_max ll of
        Inl e \<Rightarrow> Inl e
      | Inr lm \<Rightarrow> Inr (ln (mean (map (\<lambda>x. exp (x - lm)) ll)) + lm))"

text \<open>A header card: keyword, value, comment.\<close>

type_synonym card = "string \<times> real \<times> string"

text \<open>The cards appended after the parameter cards; \<^verbatim>\<open>ep\<close> and \<^verbatim>\<open>ll\<close> are
  \<^verbatim>\<open>self.dll_epochs\<close> and \<^verbatim>\<open>self.dll_values\<close>, and \<^verbatim>\<open>c = self.mode[0]\<close>.\<close>

definition dll_cards :: "string \<Rightarrow> int list \<Rightarrow> real list \<Rightarrow> error + card list" where
  "dll_cards mode ep ll =
     (case mode of
        [] \<Rightarrow> Inl IndexError
      | c # _ \<Rightarrow>
         (case log_mean_exp ll of
            Inl e \<Rightarrow> Inl e
          | Inr va \<Rightarrow>
             (let h = [(''TF'' @ [c] @ ''_DLLA'', va, ''Mean per-orbit delta log likelihood'')]
              in if mode = ''all'' then
                   (case log_mean_exp (bool_index ll (map (\<lambda>e. e mod 2 = 0) ep)) of
                      Inl e \<Rightarrow> Inl e
                    | Inr vo \<Rightarrow>
                       (case log_mean_exp (bool_index ll (map (\<lambda>e. e mod 2 \<noteq> 0) ep)) of
                          Inl e \<Rightarrow> Inl e
                        | Inr ve \<Rightarrow>
                            Inr (h @ [(''TFA_DLLO'', vo,
                                       ''Mean per-orbit delta log likelihood (odd)''),
                                      (''TFA_DLLE'', ve,
                                       ''Mean per-orbit delta log likelihood (even)'')])))
                 else Inr h)))"

subsection \<open>Notions used to state the properties\<close>

text \<open>The entries of \<open>xs\<close> at the positions whose orbit number satisfies \<open>P\<close>: the
  observed or model flux restricted to one orbit, or the per-orbit values restricted
  to one parity.\<close>

definition values_where :: "(int \<Rightarrow> bool) \<Rightarrow> int list \<Rightarrow> real list \<Rightarrow> real list" where
  "values_where P ep xs = map (\<lambda>i. xs ! i) (filter (\<lambda>i. P (ep ! i)) [0..<length ep])"

text \<open>The Gaussian log likelihood as the specification writes it, with \<open>n\<close> the number
  of points: \<open>- n log e - n/2 log (2 pi) - 1/2 sum ((o - m)^2 / e^2)\<close>.\<close>

definition spec_loglik :: "real list \<Rightarrow> real list \<Rightarrow> real \<Rightarrow> real" where
  "spec_loglik obs ms e_std =
     (let n = length obs in
      - real n * ln e_std - 0.5 * real n * ln (2 * pi)
        - 0.5 * (\<Sum>i<n. (obs ! i - ms ! i)\<^sup>2 / e_std\<^sup>2))"

text \<open>The value the loop stores for the orbit \<open>e\<close>.\<close>

definition orbit_dll :: "int list \<Rightarrow> real list \<Rightarrow> real list \<Rightarrow> real \<Rightarrow> int \<Rightarrow> real" where
  "orbit_dll epochs fobs fmod err e =
     (let m = map (\<lambda>x. x = e) epochs in
      lnlike_normal (bool_index fobs m) (Arr (bool_index fmod m)) err
        - lnlike_normal (bool_index fobs m) (Scalar 1.0) err)"

text \<open>A small masked light curve of two orbits, and a search object of four
  observations, on which the statements are exercised.\<close>

definition ex_epochs :: "int list" where
  "ex_epochs = [0, 0, 1]"

definition ex_time :: "real list" where
  "ex_time = [3.5, 3.6, 7]"

definition ex_flux :: "real list" where
  "ex_flux = [0.99, 1, 1]"

definition ex_model :: "real list" where
  "ex_model = [0.98, 1, 1]"

definition ex_ts :: transit_search where
  "ex_ts = \<lparr> ts_time = [3.5, 3.6, 7, 5], ts_flux = [0.99, 1, 1, 1],
            ts_phase = [1.75, 1.85, 1.75, 3.25], ts_zero_epoch = 0, ts_period = 3.5,
            ts_duration = 0.1, ts_depth = 0.01 \<rparr>"

definition ex_epoch_of :: "real \<Rightarrow> real \<Rightarrow> real \<Rightarrow> int" where
  "ex_epoch_of t z p = \<lfloor>(t - z) / p + 1 / 2\<rfloor>"

section \<open>Properties\<close>

subsection \<open>Auxiliary facts\<close>

lemma bool_index_filter_idx:
  assumes "length xs = length ks"
  shows "bool_index xs (map P ks) = map (\<lambda>i. xs ! i) (filter (\<lambda>i. P (ks ! i)) [0..<length ks])"
  using assms
proof (induction ks arbitrary: xs rule: rev_induct)
  case Nil
  then show ?case by (simp add: bool_index_def)
next
  case (snoc k ks)
  then obtain ys y where xs: "xs = ys @ [y]" and len: "length ys = length ks"
    by (cases xs rule: rev_cases) auto
  have ih: "bool_index ys (map P ks) = map (\<lambda>i. ys ! i) (filter (\<lambda>i. P (ks ! i)) [0..<length ks])"
    using snoc.IH len by simp
  have a: "bool_index xs (map P (ks @ [k])) = bool_index ys (map P ks) @ (if P k then [y] else [])"
    using len by (simp add: bool_index_def xs)
  have b: "filter (\<lambda>i. P ((ks @ [k]) ! i)) [0..<length ks] = filter (\<lambda>i. P (ks ! i)) [0..<length ks]"
    by (rule filter_cong) (auto simp: nth_append)
  have c: "map (\<lambda>i. xs ! i) (filter (\<lambda>i. P (ks ! i)) [0..<length ks])
             = map (\<lambda>i. ys ! i) (filter (\<lambda>i. P (ks ! i)) [0..<length ks])"
    by (rule map_cong) (auto simp: xs nth_append len)
  show ?case
    using a b c ih len by (simp add: xs nth_append)
qed

lemma bool_index_values_where:
  "length xs = length ep \<Longrightarrow> bool_index xs (map P ep) = values_where P ep xs"
  unfolding values_where_def by (rule bool_index_filter_idx)

lemma member_nonempty: "x \<in> set xs \<Longrightarrow> xs \<noteq> []"
  by (cases xs) simp_all

lemma values_where_nonempty:
  assumes "i < length ep" "P (ep ! i)"
  shows "values_where P ep xs \<noteq> []"
proof -
  have "i \<in> set (filter (\<lambda>i. P (ep ! i)) [0..<length ep])" using assms by simp
  then have "filter (\<lambda>i. P (ep ! i)) [0..<length ep] \<noteq> []" by (rule member_nonempty)
  then show ?thesis by (simp add: values_where_def)
qed

lemma sum_list_map2_nth:
  "length xs = length ys \<Longrightarrow> sum_list (map2 f xs ys) = (\<Sum>i<length xs. f (xs ! i) (ys ! i))"
proof (induction xs ys rule: list_induct2)
  case Nil
  then show ?case by simp
next
  case (Cons x xs y ys)
  then show ?case
    by (simp add: sum.lessThan_Suc_shift del: sum.lessThan_Suc)
qed

lemma lnlike_normal_Arr:
  "length ms = length obs \<Longrightarrow> lnlike_normal obs (Arr ms) e = spec_loglik obs ms e"
  by (simp add: lnlike_normal_def spec_loglik_def sum_list_map2_nth Let_def)

lemma lnlike_normal_Scalar:
  "lnlike_normal obs (Scalar c) e = spec_loglik obs (replicate (length obs) c) e"
  by (simp add: lnlike_normal_def spec_loglik_def sum_list_map2_nth Let_def)

text \<open>The loop writes the value of each orbit at the position of that orbit and leaves
  the rest of the array alone.\<close>

lemma dll_loop_enumerate:
  "k + length ues \<le> length lnl \<Longrightarrow>
   dll_loop (enumerate k ues) epochs fobs fmod err lnl =
     take k lnl @ map (orbit_dll epochs fobs fmod err) ues @ drop (k + length ues) lnl"
proof (induction ues arbitrary: k lnl)
  case Nil
  then show ?case by simp
next
  case (Cons u ues)
  let ?v = "orbit_dll epochs fobs fmod err u"
  have "dll_loop (enumerate k (u # ues)) epochs fobs fmod err lnl =
        dll_loop (enumerate (Suc k) ues) epochs fobs fmod err (lnl[k := ?v])"
    by (simp add: orbit_dll_def Let_def)
  also have "\<dots> = take (Suc k) (lnl[k := ?v]) @ map (orbit_dll epochs fobs fmod err) ues
                    @ drop (Suc k + length ues) (lnl[k := ?v])"
    using Cons.prems by (intro Cons.IH) simp
  also have "take (Suc k) (lnl[k := ?v]) = take k lnl @ [?v]"
    using Cons.prems by (simp add: take_Suc_conv_app_nth)
  also have "drop (Suc k + length ues) (lnl[k := ?v]) = drop (k + length (u # ues)) lnl"
    by simp
  finally show ?case by simp
qed

lemma dll_values_map:
  "dll_values (fit_scores mode epochs time fobs fmod err) =
     map (orbit_dll epochs fobs fmod err) (unique epochs)"
  by (simp add: fit_scores_def Let_def dll_loop_enumerate)

lemma dll_epochs_unique:
  "dll_epochs (fit_scores mode epochs time fobs fmod err) = unique epochs"
  by (simp add: fit_scores_def Let_def)

lemma set_unique: "set (unique xs) = set xs"
  by (simp add: unique_def)

lemma map_of_zip_map_f: "x \<in> set xs \<Longrightarrow> map_of (zip xs (map f xs)) x = Some (f x)"
  by (induction xs) auto

lemma dll_table_lookup:
  assumes "e \<in> set epochs"
  shows "map_of (zip (dll_epochs (fit_scores mode epochs time fobs fmod err))
                     (dll_values (fit_scores mode epochs time fobs fmod err))) e
           = Some (orbit_dll epochs fobs fmod err e)"
proof -
  have "e \<in> set (unique epochs)" using assms by (simp add: set_unique)
  then show ?thesis
    unfolding dll_values_map dll_epochs_unique by (rule map_of_zip_map_f)
qed

lemma sum_list_pos:
  fixes f :: "'a \<Rightarrow> real"
  assumes "\<forall>x\<in>set xs. 0 \<le> f x" "\<exists>x\<in>set xs. 0 < f x"
  shows "0 < sum_list (map f xs)"
  using assms
proof (induction xs)
  case Nil
  then show ?case by simp
next
  case (Cons a xs)
  have nn: "0 \<le> sum_list (map f xs)"
    using Cons.prems(1) by (intro sum_list_nonneg) auto
  show ?case
  proof (cases "0 < f a")
    case True
    then show ?thesis using nn by simp
  next
    case False
    then have "\<exists>x\<in>set xs. 0 < f x" using Cons.prems(2) by auto
    then have "0 < sum_list (map f xs)" using Cons.IH Cons.prems(1) by simp
    moreover have "0 \<le> f a" using Cons.prems(1) by simp
    ultimately show ?thesis by simp
  qed
qed

lemma sum_list_exp_shift:
  "sum_list (map (\<lambda>x. exp (x - c)) xs) = exp (- c) * sum_list (map exp xs)" for c :: real
proof (induction xs)
  case Nil
  then show ?case by simp
next
  case (Cons a xs)
  have "exp (a - c) = exp (- c) * exp a"
    using exp_add [of "- c" a] by simp
  then show ?case
    using Cons.IH by (simp add: distrib_left)
qed

lemma sum_list_exp_pos: "xs \<noteq> [] \<Longrightarrow> 0 < sum_list (map exp xs)" for xs :: "real list"
proof (rule sum_list_pos)
  show "\<forall>x\<in>set xs. 0 \<le> exp x" by simp
  assume "xs \<noteq> []"
  then obtain y ys where "xs = y # ys" by (cases xs) auto
  then have "y \<in> set xs" "0 < exp y" by simp_all
  then show "\<exists>x\<in>set xs. 0 < exp x" by blast
qed

lemma ln_mean_exp_shift:
  assumes "xs \<noteq> []"
  shows "ln (mean (map (\<lambda>x. exp (x - c)) xs)) + c = ln (mean (map exp xs))"
proof -
  have pos: "0 < mean (map exp xs)"
    using assms sum_list_exp_pos [OF assms] by (simp add: mean_def)
  have "mean (map (\<lambda>x. exp (x - c)) xs) = exp (- c) * mean (map exp xs)"
    by (simp add: mean_def sum_list_exp_shift)
  then have "ln (mean (map (\<lambda>x. exp (x - c)) xs)) = - c + ln (mean (map exp xs))"
    using pos by (simp add: ln_mult)
  then show ?thesis by simp
qed

lemma log_mean_exp_closed:
  "xs \<noteq> [] \<Longrightarrow> log_mean_exp xs = Inr (ln (mean (map exp xs)))"
  by (simp add: log_mean_exp_def array_max_def ln_mean_exp_shift)

subsection \<open>The delta-BIC score\<close>

text \<open>
  C1 (the claim holds with the sign of the penalty reversed). In mode \<^verbatim>\<open>all\<close> the
  score stored after a fit is the sum of the per-orbit differences of log likelihood
  plus \<open>0.5 (k_flat - k_transit) log N\<close> with \<open>k_flat = 0\<close>, \<open>k_transit = 9\<close> and \<open>N\<close>
  the number of masked observations, that is the sum minus \<open>4.5 log N\<close>: the call
  passes the parameter counts in the order \<open>0, 9\<close>.
\<close>

theorem aggregate_dbic_value:
  "dbic (fit_scores ''all'' epochs time fobs fmod err) =
     Some (sum_list (dll_values (fit_scores ''all'' epochs time fobs fmod err))
           + 0.5 * (0 - 9) * ln (real (length time)))"
  by (simp add: fit_scores_def Let_def aggregate_dbic_def delta_bic_def)

text \<open>
  The score is not the sum plus \<open>0.5 (9 - 0) log N\<close>: for two observations of one orbit
  that the model fits as well as the flat line, the sum is \<open>0\<close> and the score is
  \<open>- 4.5 log 2\<close>, not \<open>4.5 log 2\<close>.
\<close>

theorem aggregate_dbic_sign_counterexample:
  "dbic (fit_scores ''all'' [0, 0] [0, 1] [1, 1] [1, 1] 1) \<noteq>
     Some (sum_list (dll_values (fit_scores ''all'' [0, 0] [0, 1] [1, 1] [1, 1] 1))
           + 0.5 * (9 - 0) * ln (real (length [0::real, 1])))"
proof -
  have "ln (2::real) > 0" by simp
  then show ?thesis
    by (simp add: fit_scores_def Let_def aggregate_dbic_def delta_bic_def)
qed

text \<open>
  C7 (the claim holds with the direction reversed). With the sum of the per-orbit
  differences held fixed, the score computed by the call of mode \<^verbatim>\<open>all\<close> is strictly
  decreasing in the number of masked observations, from one observation on.
\<close>

theorem aggregate_dbic_decreasing:
  assumes "sum_list lnl' = sum_list lnl" "1 \<le> length time" "length time < length time'"
  shows "aggregate_dbic lnl' time' < aggregate_dbic lnl time"
proof -
  have "ln (real (length time)) < ln (real (length time'))"
    using assms(2,3) by (subst ln_less_cancel_iff) auto
  then show ?thesis
    using assms(1) by (simp add: aggregate_dbic_def delta_bic_def)
qed

theorem aggregate_dbic_decreasing_witness:
  "sum_list [0::real] = sum_list [0] \<and> 1 \<le> length [0::real]
   \<and> length [0::real] < length [0::real, 0]
   \<and> aggregate_dbic [0] [0, 0] < aggregate_dbic [0] [0]"
proof -
  have h1: "sum_list [0::real] = sum_list [0]" by simp
  have h2: "1 \<le> length [0::real]" by simp
  have h3: "length [0::real] < length [0::real, 0]" by simp
  show ?thesis
    by (intro conjI) (rule h1, rule h2, rule h3, rule aggregate_dbic_decreasing [OF h1 h2 h3])
qed

text \<open>
  The score is not increasing: with the sum \<open>0\<close>, it is \<open>0\<close> for one observation and
  \<open>- 4.5 log 2\<close> for two.
\<close>

theorem aggregate_dbic_increasing_counterexample:
  "\<not> (aggregate_dbic [0] [0] \<le> aggregate_dbic [0] [0, 0])"
proof -
  have "ln (2::real) > 0" by simp
  then show ?thesis
    by (simp add: aggregate_dbic_def delta_bic_def)
qed

subsection \<open>The per-orbit differences of log likelihood\<close>

lemma orbit_dll_spec:
  assumes "length fobs = length epochs" "length fmod = length epochs"
  shows "orbit_dll epochs fobs fmod err e =
     spec_loglik (values_where (\<lambda>x. x = e) epochs fobs)
                 (values_where (\<lambda>x. x = e) epochs fmod) err
       - spec_loglik (values_where (\<lambda>x. x = e) epochs fobs)
           (replicate (length (values_where (\<lambda>x. x = e) epochs fobs)) 1) err"
proof -
  have o: "bool_index fobs (map (\<lambda>x. x = e) epochs) = values_where (\<lambda>x. x = e) epochs fobs"
    using assms(1) by (rule bool_index_values_where)
  have m: "bool_index fmod (map (\<lambda>x. x = e) epochs) = values_where (\<lambda>x. x = e) epochs fmod"
    using assms(2) by (rule bool_index_values_where)
  have len: "length (values_where (\<lambda>x. x = e) epochs fmod)
               = length (values_where (\<lambda>x. x = e) epochs fobs)"
    by (simp add: values_where_def)
  show ?thesis
    unfolding orbit_dll_def Let_def o m
    by (simp add: lnlike_normal_Arr [OF len] lnlike_normal_Scalar)
qed

text \<open>
  C2. For every orbit \<open>e\<close> of the masked data, the value stored for \<open>e\<close> is
  \<open>LL(o, m) - LL(o, 1)\<close>, where \<open>o\<close> and \<open>m\<close> are the observed and the model flux at the
  points of orbit \<open>e\<close>, \<open>LL\<close> is the Gaussian log likelihood of the specification and
  the noise \<open>err\<close> is the same for all points.
\<close>

theorem per_epoch_dll:
  assumes "e \<in> set epochs" "length fobs = length epochs" "length fmod = length epochs"
  shows "map_of (zip (dll_epochs (fit_scores mode epochs time fobs fmod err))
                     (dll_values (fit_scores mode epochs time fobs fmod err))) e =
     Some (spec_loglik (values_where (\<lambda>x. x = e) epochs fobs)
                       (values_where (\<lambda>x. x = e) epochs fmod) err
             - spec_loglik (values_where (\<lambda>x. x = e) epochs fobs)
                 (replicate (length (values_where (\<lambda>x. x = e) epochs fobs)) 1) err)"
  unfolding dll_table_lookup [OF assms(1)] orbit_dll_spec [OF assms(2,3)] by (rule refl)

theorem per_epoch_dll_witness:
  "(0::int) \<in> set ex_epochs \<and> length ex_flux = length ex_epochs
   \<and> length ex_model = length ex_epochs
   \<and> map_of (zip (dll_epochs (fit_scores ''all'' ex_epochs ex_time ex_flux ex_model 1))
                  (dll_values (fit_scores ''all'' ex_epochs ex_time ex_flux ex_model 1))) 0 =
     Some (spec_loglik (values_where (\<lambda>x. x = 0) ex_epochs ex_flux)
                       (values_where (\<lambda>x. x = 0) ex_epochs ex_model) 1
             - spec_loglik (values_where (\<lambda>x. x = 0) ex_epochs ex_flux)
                 (replicate (length (values_where (\<lambda>x. x = 0) ex_epochs ex_flux)) 1) 1)"
proof -
  have h1: "(0::int) \<in> set ex_epochs" by (simp add: ex_epochs_def)
  have h2: "length ex_flux = length ex_epochs" by (simp add: ex_flux_def ex_epochs_def)
  have h3: "length ex_model = length ex_epochs" by (simp add: ex_model_def ex_epochs_def)
  show ?thesis
    by (intro conjI) (rule h1, rule h2, rule h3, rule per_epoch_dll [OF h1 h2 h3])
qed

subsection \<open>The selection mask\<close>

text \<open>
  C3. For a search object whose phase array has the size of its time array and a
  valid mode, the mask exists, has one entry per observation, and retains observation
  \<open>i\<close> exactly if its orbit number passes the parity filter of the mode (none for
  \<^verbatim>\<open>all\<close>, remainder \<open>0\<close> modulo \<open>2\<close> for \<^verbatim>\<open>even\<close>, remainder \<open>1\<close> for \<^verbatim>\<open>odd\<close>) and
  its phase satisfies \<open>|phase - 0.5 period| < 4 * 0.5 * duration\<close>.
\<close>

theorem transit_mask_iff:
  assumes "length (ts_phase ts) = length (ts_time ts)"
    and "mode \<in> {''all'', ''even'', ''odd''}"
    and "i < length (ts_time ts)"
  shows "\<exists>m. transit_mask epoch_of ts mode = Inr m \<and> length m = length (ts_time ts) \<and>
           (m ! i \<longleftrightarrow>
              (mode = ''even'' \<longrightarrow>
                 epoch_of (ts_time ts ! i) (ts_zero_epoch ts) (ts_period ts) mod 2 = 0)
            \<and> (mode = ''odd'' \<longrightarrow>
                 epoch_of (ts_time ts ! i) (ts_zero_epoch ts) (ts_period ts) mod 2 = 1)
            \<and> \<bar>ts_phase ts ! i - 0.5 * ts_period ts\<bar> < 4 * 0.5 * ts_duration ts)"
  using assms by (auto simp: transit_mask_def Let_def)

theorem transit_mask_iff_witness:
  "length (ts_phase ex_ts) = length (ts_time ex_ts)
   \<and> ''even'' \<in> {''all'', ''even'', ''odd''}
   \<and> 0 < length (ts_time ex_ts)
   \<and> (\<exists>m. transit_mask ex_epoch_of ex_ts ''even'' = Inr m
          \<and> length m = length (ts_time ex_ts)
          \<and> m ! 0 =
              (ex_epoch_of (ts_time ex_ts ! 0) (ts_zero_epoch ex_ts) (ts_period ex_ts) mod 2 = 0
               \<and> \<bar>ts_phase ex_ts ! 0 - 0.5 * ts_period ex_ts\<bar> < 4 * 0.5 * ts_duration ex_ts))"
proof -
  have h1: "length (ts_phase ex_ts) = length (ts_time ex_ts)" by (simp add: ex_ts_def)
  have h2: "''even'' \<in> {''all'', ''even'', ''odd''}" by simp
  have h3: "0 < length (ts_time ex_ts)" by (simp add: ex_ts_def)
  from transit_mask_iff [OF h1 h2 h3, of ex_epoch_of]
  obtain m where m: "transit_mask ex_epoch_of ex_ts ''even'' = Inr m \<and>
      length m = length (ts_time ex_ts) \<and>
      (m ! 0 \<longleftrightarrow>
         (''even'' = ''even'' \<longrightarrow>
            ex_epoch_of (ts_time ex_ts ! 0) (ts_zero_epoch ex_ts) (ts_period ex_ts) mod 2 = 0)
       \<and> (''even'' = ''odd'' \<longrightarrow>
            ex_epoch_of (ts_time ex_ts ! 0) (ts_zero_epoch ex_ts) (ts_period ex_ts) mod 2 = 1)
       \<and> \<bar>ts_phase ex_ts ! 0 - 0.5 * ts_period ex_ts\<bar> < 4 * 0.5 * ts_duration ex_ts)" ..
  have a: "transit_mask ex_epoch_of ex_ts ''even'' = Inr m" using m by (rule conjunct1)
  have b: "length m = length (ts_time ex_ts)" using m by (rule conjunct2 [THEN conjunct1])
  have c: "m ! 0 =
              (ex_epoch_of (ts_time ex_ts ! 0) (ts_zero_epoch ex_ts) (ts_period ex_ts) mod 2 = 0
               \<and> \<bar>ts_phase ex_ts ! 0 - 0.5 * ts_period ex_ts\<bar> < 4 * 0.5 * ts_duration ex_ts)"
    using m [THEN conjunct2, THEN conjunct2] by simp
  show ?thesis
    by (intro conjI exI [of _ m]) (rule h1, rule h2, rule h3, rule a, rule b, rule c)
qed

text \<open>
  C4. For one search object whose phase array has the size of its time array, the three
  masks exist, every observation retained for \<^verbatim>\<open>even\<close> or for \<^verbatim>\<open>odd\<close> is retained for
  \<^verbatim>\<open>all\<close>, and no observation is retained for both \<^verbatim>\<open>even\<close> and \<^verbatim>\<open>odd\<close>.
\<close>

theorem transit_mask_partition:
  assumes "length (ts_phase ts) = length (ts_time ts)"
  shows "\<exists>ma me mo.
           transit_mask epoch_of ts ''all'' = Inr ma \<and>
           transit_mask epoch_of ts ''even'' = Inr me \<and>
           transit_mask epoch_of ts ''odd'' = Inr mo \<and>
           retained me \<union> retained mo \<subseteq> retained ma \<and>
           retained me \<inter> retained mo = {}"
  using assms by (auto simp: transit_mask_def Let_def retained_def)

theorem transit_mask_partition_witness:
  "length (ts_phase ex_ts) = length (ts_time ex_ts)
   \<and> (\<exists>ma me mo.
           transit_mask ex_epoch_of ex_ts ''all'' = Inr ma \<and>
           transit_mask ex_epoch_of ex_ts ''even'' = Inr me \<and>
           transit_mask ex_epoch_of ex_ts ''odd'' = Inr mo \<and>
           retained me \<union> retained mo \<subseteq> retained ma \<and>
           retained me \<inter> retained mo = {})"
proof -
  have h1: "length (ts_phase ex_ts) = length (ts_time ex_ts)" by (simp add: ex_ts_def)
  show ?thesis
    by (intro conjI) (rule h1, rule transit_mask_partition [OF h1])
qed

subsection \<open>The prior on the squared radius ratio\<close>

text \<open>
  C6 (the claim holds with the width replaced by a floor on the upper bound). For modes
  \<^verbatim>\<open>even\<close> and \<^verbatim>\<open>odd\<close> and every median \<open>k2_med\<close> of the fit to all transits, the
  lower bound is at least \<open>0.01^2\<close>, the upper bound lies between \<open>0.08^2\<close> and
  \<open>0.6^2\<close>, and the lower bound is strictly below the upper bound whenever
  \<open>k2_med < 0.72\<close>.
\<close>

theorem k2_prior_bounds:
  assumes "mode \<in> {''even'', ''odd''}"
  shows "0.01\<^sup>2 \<le> fst (k2_prior mode depth k2_med)
       \<and> 0.08\<^sup>2 \<le> snd (k2_prior mode depth k2_med)
       \<and> snd (k2_prior mode depth k2_med) \<le> 0.6\<^sup>2
       \<and> (k2_med < 0.72 \<longrightarrow> fst (k2_prior mode depth k2_med) < snd (k2_prior mode depth k2_med))"
  using assms by (auto simp: k2_prior_def power2_eq_square max_def min_def)

theorem k2_prior_bounds_witness:
  "''odd'' \<in> {''even'', ''odd''}
   \<and> 0.01\<^sup>2 \<le> fst (k2_prior ''odd'' 0.01 0.004)
   \<and> 0.08\<^sup>2 \<le> snd (k2_prior ''odd'' 0.01 0.004)
   \<and> snd (k2_prior ''odd'' 0.01 0.004) \<le> 0.6\<^sup>2
   \<and> ((0.004::real) < 0.72 \<and> fst (k2_prior ''odd'' 0.01 0.004) < snd (k2_prior ''odd'' 0.01 0.004))"
proof -
  have h1: "''odd'' \<in> {''even'', ''odd''}" by simp
  have h2: "(0.004::real) < 0.72" by simp
  show ?thesis
    using h1 h2 k2_prior_bounds [OF h1, of "0.01" "0.004"] by simp
qed

text \<open>
  The interval can be narrower than \<open>0.08^2 = 0.0064\<close>: for \<open>k2_med = 0.004\<close> the bounds
  are \<open>0.002\<close> and \<open>0.008\<close>.
\<close>

theorem k2_prior_width_counterexample:
  "\<not> (0.01\<^sup>2 \<le> fst (k2_prior ''even'' 0.01 0.004)
      \<and> snd (k2_prior ''even'' 0.01 0.004) \<le> 0.6\<^sup>2
      \<and> 0.08\<^sup>2 \<le> snd (k2_prior ''even'' 0.01 0.004) - fst (k2_prior ''even'' 0.01 0.004))"
  by (simp add: k2_prior_def power2_eq_square)

subsection \<open>Construction\<close>

text \<open>
  C9. For a mode other than \<^verbatim>\<open>all\<close>, \<^verbatim>\<open>even\<close> and \<^verbatim>\<open>odd\<close>, construction raises
  \<^verbatim>\<open>AssertionError\<close> whatever the base class does, so before the base class is
  initialised and before any attribute is set; for each of the three modes,
  construction returns an object as soon as the initialiser of the base class returns.
\<close>

theorem tfstep_init_mode:
  "(mode \<notin> {''all'', ''even'', ''odd''} \<longrightarrow>
      tfstep_init super_init ts mode title nsamples exptime use_opencl use_tqdm
        = Inl AssertionError)
   \<and> (mode \<in> {''all'', ''even'', ''odd''} \<longrightarrow>
      (\<forall>b. super_init ts = Inr b \<longrightarrow>
         (\<exists>st. tfstep_init super_init ts mode title nsamples exptime use_opencl use_tqdm
                  = Inr st
               \<and> self_base st = b \<and> self_mode st = mode)))"
  by (simp add: tfstep_init_def)

theorem tfstep_init_mode_witness:
  "tfstep_init (\<lambda>t::unit. Inl ValueError :: error + unit) () ''both'' ''fit'' 1 1 False True
     = Inl AssertionError
   \<and> (\<exists>st. tfstep_init (\<lambda>t::unit. Inr t :: error + unit) () ''odd'' ''fit'' 1 1 False True
              = Inr st
            \<and> self_base st = () \<and> self_mode st = ''odd'')"
proof -
  have a: "''both'' \<notin> {''all'', ''even'', ''odd''}" by simp
  have b: "''odd'' \<in> {''all'', ''even'', ''odd''}" by simp
  note fails = tfstep_init_mode [of "''both''" "\<lambda>t::unit. Inl ValueError :: error + unit" "()"
                                   "''fit''" 1 1 False True]
  note succeeds = tfstep_init_mode [of "''odd''" "\<lambda>t::unit. Inr t :: error + unit" "()"
                                      "''fit''" 1 1 False True]
  have 1: "tfstep_init (\<lambda>t::unit. Inl ValueError :: error + unit) () ''both'' ''fit'' 1 1 False True
             = Inl AssertionError"
    by (rule fails [THEN conjunct1, THEN mp, OF a])
  have 2: "\<exists>st. tfstep_init (\<lambda>t::unit. Inr t :: error + unit) () ''odd'' ''fit'' 1 1 False True
              = Inr st
            \<and> self_base st = () \<and> self_mode st = ''odd''"
    by (rule succeeds [THEN conjunct2, THEN mp, OF b, THEN spec, THEN mp, OF refl])
  show ?thesis using 1 2 by (rule conjI)
qed

subsection \<open>The summaries of the report\<close>

text \<open>
  C5. Over the reals: for a non-empty array of per-orbit values, and in mode \<^verbatim>\<open>all\<close>
  non-empty parity subsets, the cards are written and the value of each, computed as
  \<open>log (mean (exp (ll - max ll))) + max ll\<close>, equals \<open>log (mean (exp ll))\<close> taken over
  the same values: all of them for the first card, and in mode \<^verbatim>\<open>all\<close> each of the
  two parity subsets for the other two.
\<close>

theorem dll_cards_closed_form:
  assumes "mode \<noteq> []" "ll \<noteq> []"
    and "mode = ''all'' \<longrightarrow> bool_index ll (map (\<lambda>e. e mod 2 = 0) ep) \<noteq> []
                         \<and> bool_index ll (map (\<lambda>e. e mod 2 \<noteq> 0) ep) \<noteq> []"
  shows "\<exists>cards. dll_cards mode ep ll = Inr cards \<and>
           map (fst \<circ> snd) cards =
             map (\<lambda>S. ln (mean (map exp S)))
               (ll # (if mode = ''all''
                      then [bool_index ll (map (\<lambda>e. e mod 2 = 0) ep),
                            bool_index ll (map (\<lambda>e. e mod 2 \<noteq> 0) ep)]
                      else []))"
proof -
  obtain c cs where mode: "mode = c # cs" using assms(1) by (cases mode) auto
  show ?thesis
  proof (cases "mode = ''all''")
    case True
    then show ?thesis
      using assms(2,3) by (simp add: dll_cards_def log_mean_exp_closed Let_def)
  next
    case False
    then show ?thesis
      using assms(2) mode by (auto simp: dll_cards_def log_mean_exp_closed Let_def)
  qed
qed

theorem dll_cards_closed_form_witness:
  "''all'' \<noteq> [] \<and> [0, 500, - 500 :: real] \<noteq> []
   \<and> bool_index [0, 500, - 500 :: real] (map (\<lambda>e. e mod 2 = 0) [0, 1, 2 :: int]) \<noteq> []
   \<and> bool_index [0, 500, - 500 :: real] (map (\<lambda>e. e mod 2 \<noteq> 0) [0, 1, 2 :: int]) \<noteq> []
   \<and> (\<exists>cards. dll_cards ''all'' [0, 1, 2] [0, 500, - 500] = Inr cards \<and>
           map (fst \<circ> snd) cards =
             map (\<lambda>S. ln (mean (map exp S)))
               ([0, 500, - 500] # (if ''all'' = ''all''
                      then [bool_index [0, 500, - 500] (map (\<lambda>e. e mod 2 = 0) [0, 1, 2 :: int]),
                            bool_index [0, 500, - 500] (map (\<lambda>e. e mod 2 \<noteq> 0) [0, 1, 2 :: int])]
                      else [])))"
proof -
  have h1: "''all'' \<noteq> []" by simp
  have h2: "[0, 500, - 500 :: real] \<noteq> []" by simp
  have h3a: "bool_index [0, 500, - 500 :: real] (map (\<lambda>e. e mod 2 = 0) [0, 1, 2 :: int]) \<noteq> []"
    by (simp add: bool_index_def)
  have h3b: "bool_index [0, 500, - 500 :: real] (map (\<lambda>e. e mod 2 \<noteq> 0) [0, 1, 2 :: int]) \<noteq> []"
    by (simp add: bool_index_def)
  have h3: "''all'' = ''all'' \<longrightarrow>
         bool_index [0, 500, - 500 :: real] (map (\<lambda>e. e mod 2 = 0) [0, 1, 2 :: int]) \<noteq> []
       \<and> bool_index [0, 500, - 500 :: real] (map (\<lambda>e. e mod 2 \<noteq> 0) [0, 1, 2 :: int]) \<noteq> []"
    using h3a h3b by (intro impI conjI)
  show ?thesis
    by (intro conjI)
       (rule h1, rule h2, rule h3a, rule h3b, rule dll_cards_closed_form [OF h1 h2 h3])
qed

text \<open>
  C10. In mode \<^verbatim>\<open>all\<close>, with one value per orbit and orbits of both parities, three
  cards are written: the card \<^verbatim>\<open>TFA_DLLO\<close>, commented \<^verbatim>\<open>(odd)\<close>, holds the summary of the
  values of the orbits whose number is even, and the card \<^verbatim>\<open>TFA_DLLE\<close>, commented
  \<^verbatim>\<open>(even)\<close>, holds the summary of the values of the orbits whose number is odd.
\<close>

theorem dll_cards_parity_labels:
  assumes "length ll = length ep"
    and "\<exists>i<length ep. ep ! i mod 2 = 0"
    and "\<exists>i<length ep. ep ! i mod 2 \<noteq> 0"
  shows "\<exists>va vo ve.
           dll_cards ''all'' ep ll =
             Inr [(''TFa_DLLA'', va, ''Mean per-orbit delta log likelihood''),
                  (''TFA_DLLO'', vo, ''Mean per-orbit delta log likelihood (odd)''),
                  (''TFA_DLLE'', ve, ''Mean per-orbit delta log likelihood (even)'')]
         \<and> log_mean_exp (values_where (\<lambda>e. e mod 2 = 0) ep ll) = Inr vo
         \<and> log_mean_exp (values_where (\<lambda>e. e mod 2 \<noteq> 0) ep ll) = Inr ve"
proof -
  let ?ev = "values_where (\<lambda>e. e mod 2 = 0) ep ll"
  let ?od = "values_where (\<lambda>e. e mod 2 \<noteq> 0) ep ll"
  have ev: "bool_index ll (map (\<lambda>e. e mod 2 = 0) ep) = ?ev"
    using assms(1) by (rule bool_index_values_where)
  have od: "bool_index ll (map (\<lambda>e. e mod 2 \<noteq> 0) ep) = ?od"
    using assms(1) by (rule bool_index_values_where)
  from assms(2) obtain i where i: "i < length ep \<and> ep ! i mod 2 = 0" ..
  from assms(3) obtain j where j: "j < length ep \<and> ep ! j mod 2 \<noteq> 0" ..
  have i1: "i < length ep" using i ..
  have i2: "(\<lambda>e. e mod 2 = 0) (ep ! i)" using i by simp
  have j1: "j < length ep" using j ..
  have j2: "(\<lambda>e. e mod 2 \<noteq> 0) (ep ! j)" using j by simp
  from i1 i2 have ev_ne: "?ev \<noteq> []" by (rule values_where_nonempty)
  from j1 j2 have od_ne: "?od \<noteq> []" by (rule values_where_nonempty)
  have ll_ne: "ll \<noteq> []" using assms(1) i1 by (cases ll) simp_all
  note va = log_mean_exp_closed [OF ll_ne]
  note vo = log_mean_exp_closed [OF ev_ne]
  note ve = log_mean_exp_closed [OF od_ne]
  have cards: "dll_cards ''all'' ep ll =
     Inr [(''TFa_DLLA'', ln (mean (map exp ll)), ''Mean per-orbit delta log likelihood''),
          (''TFA_DLLO'', ln (mean (map exp ?ev)), ''Mean per-orbit delta log likelihood (odd)''),
          (''TFA_DLLE'', ln (mean (map exp ?od)), ''Mean per-orbit delta log likelihood (even)'')]"
    unfolding dll_cards_def ev od va vo ve by (simp add: Let_def)
  show ?thesis
    by (intro exI conjI) (rule cards, rule vo, rule ve)
qed

theorem dll_cards_parity_labels_witness:
  "length [0, 500, - 500 :: real] = length [0, 1, 2 :: int]
   \<and> (0 < length [0, 1, 2 :: int] \<and> [0, 1, 2 :: int] ! 0 mod 2 = 0)
   \<and> (1 < length [0, 1, 2 :: int] \<and> [0, 1, 2 :: int] ! 1 mod 2 \<noteq> 0)
   \<and> (\<exists>va vo ve.
           dll_cards ''all'' [0, 1, 2] [0, 500, - 500] =
             Inr [(''TFa_DLLA'', va, ''Mean per-orbit delta log likelihood''),
                  (''TFA_DLLO'', vo, ''Mean per-orbit delta log likelihood (odd)''),
                  (''TFA_DLLE'', ve, ''Mean per-orbit delta log likelihood (even)'')]
         \<and> log_mean_exp (values_where (\<lambda>e. e mod 2 = 0) [0, 1, 2] [0, 500, - 500]) = Inr vo
         \<and> log_mean_exp (values_where (\<lambda>e. e mod 2 \<noteq> 0) [0, 1, 2] [0, 500, - 500]) = Inr ve)"
proof -
  have h1: "length [0, 500, - 500 :: real] = length [0, 1, 2 :: int]" by simp
  have e0: "0 < length [0, 1, 2 :: int] \<and> [0, 1, 2 :: int] ! 0 mod 2 = 0" by simp
  then have h2: "\<exists>i<length [0, 1, 2 :: int]. [0, 1, 2 :: int] ! i mod 2 = 0" by (rule exI)
  have e1: "1 < length [0, 1, 2 :: int] \<and> [0, 1, 2 :: int] ! 1 mod 2 \<noteq> 0" by simp
  then have h3: "\<exists>i<length [0, 1, 2 :: int]. [0, 1, 2 :: int] ! i mod 2 \<noteq> 0" by (rule exI)
  have concl: "\<exists>va vo ve.
           dll_cards ''all'' [0, 1, 2] [0, 500, - 500] =
             Inr [(''TFa_DLLA'', va, ''Mean per-orbit delta log likelihood''),
                  (''TFA_DLLO'', vo, ''Mean per-orbit delta log likelihood (odd)''),
                  (''TFA_DLLE'', ve, ''Mean per-orbit delta log likelihood (even)'')]
         \<and> log_mean_exp (values_where (\<lambda>e. e mod 2 = 0) [0, 1, 2] [0, 500, - 500]) = Inr vo
         \<and> log_mean_exp (values_where (\<lambda>e. e mod 2 \<noteq> 0) [0, 1, 2] [0, 500, - 500]) = Inr ve"
    by (rule dll_cards_parity_labels [OF h1 h2 h3])
  show ?thesis
    by (rule conjI [OF h1 conjI [OF e0 conjI [OF e1 concl]]])
qed

end
